theory Spec2Isabelle
  imports Main "HOL-Library.Word"
begin

section \<open>Attribute values and attribute maps\<close>

text \<open>
  Modelled from the spec: the attribute value type of the external \<^verbatim>\<open>pdata\<close> package
  (\<^verbatim>\<open>go.opentelemetry.io/collector/consumer/pdata\<close>, imported by
  \<^verbatim>\<open>resourcedetection.go\<close> but not part of the sources). A value is one of bool, int64,
  float64, string, ordered list of values, nested map of values, or unset. The constructors
  carry the names of the type tags that \<^verbatim>\<open>UnwrapAttribute\<close> switches on. An int64 is a
  64-bit word; a float64 is carried as its 64-bit pattern, since the program only moves it.
\<close>

datatype AttributeValue =
    AttributeValueNULL
  | AttributeValueSTRING string
  | AttributeValueINT "64 word"
  | AttributeValueDOUBLE "64 word"
  | AttributeValueBOOL bool
  | AttributeValueMAP "(string \<times> AttributeValue) list"
  | AttributeValueARRAY "AttributeValue list"

text \<open>
  Modelled from the spec: \<^verbatim>\<open>pdata.AttributeMap\<close> (same external package). It wraps a slice
  of key/value entries; \<^verbatim>\<open>Len\<close> is the number of entries, \<^verbatim>\<open>Get\<close> finds the first entry
  with the key, \<^verbatim>\<open>Range\<close> visits the entries in slice order, \<^verbatim>\<open>Insert\<close> sets a key only
  when the map lacks it, and \<^verbatim>\<open>Upsert\<close> sets it unconditionally (replacing the value of the
  entry that \<^verbatim>\<open>Get\<close> finds, or appending a new entry).
\<close>

type_synonym AttributeMap = "(string \<times> AttributeValue) list"

definition Len :: "AttributeMap \<Rightarrow> nat" where
  "Len am = length am"

fun Get_attr :: "AttributeMap \<Rightarrow> string \<Rightarrow> AttributeValue option" where
  "Get_attr [] key = None"
| "Get_attr ((k, v) # am) key = (if k = key then Some v else Get_attr am key)"

fun Update_attr :: "AttributeMap \<Rightarrow> string \<Rightarrow> AttributeValue \<Rightarrow> AttributeMap" where
  "Update_attr [] key v = []"
| "Update_attr ((k, old) # am) key v =
     (if k = key then (k, v) # am else (k, old) # Update_attr am key v)"

definition Insert :: "AttributeMap \<Rightarrow> string \<Rightarrow> AttributeValue \<Rightarrow> AttributeMap" where
  "Insert am k v = (case Get_attr am k of None \<Rightarrow> am @ [(k, v)] | Some existing \<Rightarrow> am)"

definition Upsert :: "AttributeMap \<Rightarrow> string \<Rightarrow> AttributeValue \<Rightarrow> AttributeMap" where
  "Upsert am k v =
     (case Get_attr am k of None \<Rightarrow> am @ [(k, v)] | Some existing \<Rightarrow> Update_attr am k v)"

text \<open>
  \<^verbatim>\<open>Range(f)\<close> with a callback that always returns true runs the callback on every entry,
  first to last; the callback's effect on the captured variable is the state that is passed
  along.
\<close>

fun Range_attr :: "AttributeMap \<Rightarrow> (string \<Rightarrow> AttributeValue \<Rightarrow> 's \<Rightarrow> 's) \<Rightarrow> 's \<Rightarrow> 's" where
  "Range_attr [] f s = s"
| "Range_attr ((k, v) # am) f s = Range_attr am f (f k v s)"

text \<open>
  Modelled from the spec: \<^verbatim>\<open>pdata.Resource\<close> (same external package), of which the
  program uses the attributes only. \<^verbatim>\<open>NewResource\<close> is the resource with no attributes.
\<close>

record Resource =
  Attributes :: AttributeMap

definition NewResource :: Resource where
  "NewResource = \<lparr>Attributes = []\<rparr>"

section \<open>Merge helpers\<close>

definition IsEmptyResource :: "Resource \<Rightarrow> bool" where
  "IsEmptyResource res = (Len (Attributes res) = 0)"

text \<open>
  \<^verbatim>\<open>MergeResource(to, from, overrideTo)\<close> changes \<^verbatim>\<open>to\<close> in place; the model returns the
  new value of \<^verbatim>\<open>to\<close>.
\<close>

definition MergeResource :: "Resource \<Rightarrow> Resource \<Rightarrow> bool \<Rightarrow> Resource" where
  "MergeResource to from overrideTo =
     (if IsEmptyResource from then to
      else to\<lparr>Attributes :=
             Range_attr (Attributes from)
               (\<lambda>k v toAttr. if overrideTo then Upsert toAttr k v else Insert toAttr k v)
               (Attributes to)\<rparr>)"

section \<open>Flatten helpers\<close>

text \<open>
  The Go values of type \<^verbatim>\<open>interface{}\<close> that \<^verbatim>\<open>UnwrapAttribute\<close> can return: \<^verbatim>\<open>nil\<close>,
  a bool, an int64, a float64, a string, a \<^verbatim>\<open>[]interface{}\<close> and a
  \<^verbatim>\<open>map[string]interface{}\<close> (a Go map: unordered, one value per key).
\<close>

datatype plain =
    Nil_val
  | Bool_val bool
  | Int64_val "64 word"
  | Float64_val "64 word"
  | String_val string
  | Slice_val "plain list"
  | Map_val "string \<Rightarrow> plain option"

text \<open>
  \<^verbatim>\<open>UnwrapAttribute\<close>, \<^verbatim>\<open>AttributesToMap\<close> and \<^verbatim>\<open>getSerializableArray\<close> call each other.
  \<^verbatim>\<open>AttributesToMap_range am mp\<close> is the \<^verbatim>\<open>Range\<close> call of \<^verbatim>\<open>AttributesToMap\<close> over the
  entries \<^verbatim>\<open>am\<close> still to visit, with \<^verbatim>\<open>mp\<close> the Go map built so far;
  \<^verbatim>\<open>getSerializableArray_loop inArr outArr\<close> is the \<^verbatim>\<open>for\<close> loop of
  \<^verbatim>\<open>getSerializableArray\<close> over the elements still to visit, with \<^verbatim>\<open>outArr\<close> the slice
  built so far (it starts as the nil slice, which like the empty slice is the list of no
  elements). The order of the equations of \<^verbatim>\<open>UnwrapAttribute\<close> is that of the
  \<^verbatim>\<open>switch\<close>; the last one is its \<^verbatim>\<open>default\<close>.
\<close>

fun UnwrapAttribute :: "AttributeValue \<Rightarrow> plain"
  and AttributesToMap_range ::
    "AttributeMap \<Rightarrow> (string \<rightharpoonup> plain) \<Rightarrow> (string \<rightharpoonup> plain)"
  and getSerializableArray_loop :: "AttributeValue list \<Rightarrow> plain list \<Rightarrow> plain list"
where
  "UnwrapAttribute (AttributeValueBOOL b) = Bool_val b"
| "UnwrapAttribute (AttributeValueINT i) = Int64_val i"
| "UnwrapAttribute (AttributeValueDOUBLE d) = Float64_val d"
| "UnwrapAttribute (AttributeValueSTRING s) = String_val s"
| "UnwrapAttribute (AttributeValueARRAY inArr) = Slice_val (getSerializableArray_loop inArr [])"
| "UnwrapAttribute (AttributeValueMAP am) = Map_val (AttributesToMap_range am Map.empty)"
| "UnwrapAttribute AttributeValueNULL = Nil_val"
| "AttributesToMap_range [] mp = mp"
| "AttributesToMap_range ((k, v) # am) mp =
     AttributesToMap_range am (mp(k \<mapsto> UnwrapAttribute v))"
| "getSerializableArray_loop [] outArr = outArr"
| "getSerializableArray_loop (v # inArr) outArr =
     getSerializableArray_loop inArr (outArr @ [UnwrapAttribute v])"

definition AttributesToMap :: "AttributeMap \<Rightarrow> (string \<rightharpoonup> plain)" where
  "AttributesToMap am = AttributesToMap_range am Map.empty"

definition getSerializableArray :: "AttributeValue list \<Rightarrow> plain list" where
  "getSerializableArray inArr = getSerializableArray_loop inArr []"

section \<open>The world outside the provider\<close>

text \<open>
  Modelled from the spec: \<^verbatim>\<open>zap.Logger\<close> (external package \<^verbatim>\<open>go.uber.org/zap\<close>). A logger
  is known by a handle; \<^verbatim>\<open>Info\<close> adds an entry (the message and its fields) to the log,
  which is part of the world that the program and its detectors act on. Detectors and
  detector constructors are code from elsewhere, with effects of their own; whatever else
  they act on is the extension part of the world record.
\<close>

type_synonym Logger = nat

record log_entry =
  Lg :: Logger
  Msg :: string
  Fields :: "(string \<times> plain) list"

record world =
  logs :: "log_entry list"

definition Info ::
  "Logger \<Rightarrow> string \<Rightarrow> (string \<times> plain) list \<Rightarrow> 'x world_scheme \<Rightarrow> 'x world_scheme" where
  "Info lg m fs w = w\<lparr>logs := logs w @ [\<lparr>Lg = lg, Msg = m, Fields = fs\<rparr>]\<rparr>"

text \<open>
  Modelled from the spec: \<^verbatim>\<open>time.Duration\<close> (an int64 count of nanoseconds) and
  \<^verbatim>\<open>context.Context\<close> of the Go standard library. A context is either one that a caller
  hands in, known by a number, or the context that \<^verbatim>\<open>context.WithTimeout\<close> derives from a
  parent and a duration. The passing of time is not part of the model.
\<close>

type_synonym Duration = "64 word"

datatype "context" = Context nat | WithTimeout "context" Duration

section \<open>Detectors and the provider factory\<close>

type_synonym DetectorType = string

text \<open>
  A Go \<^verbatim>\<open>error\<close>: one that a detector or a detector constructor returns, known by its
  message, or one of the two that \<^verbatim>\<open>getDetectors\<close> builds with \<^verbatim>\<open>fmt.Errorf\<close>:
  \<^verbatim>\<open>"invalid detector key: %v"\<close> of a detector type, and
  \<^verbatim>\<open>"failed creating detector type %q: %w"\<close> of a detector type and the wrapped error.
\<close>

datatype error =
    Err string
  | InvalidDetectorKey DetectorType
  | FailedCreatingDetector DetectorType error

text \<open>
  The \<^verbatim>\<open>Detector\<close> interface. \<^verbatim>\<open>Detect(ctx)\<close> returns a resource and an error; the program
  looks at the resource only when the error is nil, so the result is a sum. A call acts on
  the world. The model covers calls that return.
\<close>

record 'x Detector =
  Detect :: "context \<Rightarrow> 'x world_scheme \<Rightarrow> (error + Resource) \<times> 'x world_scheme"

record 'c ResourceDetectorConfig =
  GetConfigFromType :: "DetectorType \<Rightarrow> 'c"

text \<open>
  Modelled from the spec: \<^verbatim>\<open>component.ProcessorCreateParams\<close> (external package), of which
  the program reads the logger.
\<close>

record ProcessorCreateParams =
  Logger :: Logger

type_synonym ('c, 'x) DetectorFactory =
  "ProcessorCreateParams \<Rightarrow> 'c \<Rightarrow> 'x world_scheme \<Rightarrow> (error + 'x Detector) \<times> 'x world_scheme"

record ('c, 'x) ResourceProviderFactory =
  detectors :: "DetectorType \<rightharpoonup> ('c, 'x) DetectorFactory"

definition NewProviderFactory ::
  "(DetectorType \<rightharpoonup> ('c, 'x) DetectorFactory) \<Rightarrow> ('c, 'x) ResourceProviderFactory" where
  "NewProviderFactory ds = \<lparr>ResourceProviderFactory.detectors = ds\<rparr>"

text \<open>
  The loop of \<^verbatim>\<open>getDetectors\<close> over the detector types still to visit, with the slice
  \<^verbatim>\<open>dets\<close> of detectors built so far.
\<close>

fun getDetectors_loop ::
  "('c, 'x) ResourceProviderFactory \<Rightarrow> ProcessorCreateParams \<Rightarrow> 'c ResourceDetectorConfig \<Rightarrow>
   DetectorType list \<Rightarrow> 'x Detector list \<Rightarrow> 'x world_scheme \<Rightarrow>
   (error + 'x Detector list) \<times> 'x world_scheme" where
  "getDetectors_loop f params detectorConfigs [] dets w = (Inr dets, w)"
| "getDetectors_loop f params detectorConfigs (detectorType # rest) dets w =
     (case ResourceProviderFactory.detectors f detectorType of
        None \<Rightarrow> (Inl (InvalidDetectorKey detectorType), w)
      | Some detectorFactory \<Rightarrow>
          (case detectorFactory params (GetConfigFromType detectorConfigs detectorType) w of
             (Inl e, w') \<Rightarrow> (Inl (FailedCreatingDetector detectorType e), w')
           | (Inr detector, w') \<Rightarrow>
               getDetectors_loop f params detectorConfigs rest (dets @ [detector]) w'))"

definition getDetectors ::
  "('c, 'x) ResourceProviderFactory \<Rightarrow> ProcessorCreateParams \<Rightarrow> 'c ResourceDetectorConfig \<Rightarrow>
   DetectorType list \<Rightarrow> 'x world_scheme \<Rightarrow> (error + 'x Detector list) \<times> 'x world_scheme" where
  "getDetectors f params detectorConfigs detectorTypes w =
     getDetectors_loop f params detectorConfigs detectorTypes [] w"

section \<open>The resource provider\<close>

text \<open>
  \<^verbatim>\<open>resourceResult\<close>: the \<^verbatim>\<open>resource\<close> field is \<^verbatim>\<open>None\<close> while it holds the zero value of
  \<^verbatim>\<open>pdata.Resource\<close> (which wraps no data), the \<^verbatim>\<open>err\<close> field is \<^verbatim>\<open>None\<close> while it is nil.
  In \<^verbatim>\<open>ResourceProvider\<close>, \<^verbatim>\<open>detectedResource\<close> is a pointer, \<^verbatim>\<open>None\<close> while nil, and
  \<^verbatim>\<open>once\<close> is true when the \<^verbatim>\<open>sync.Once\<close> has run its function.
\<close>

record resourceResult =
  resource :: "Resource option"
  err :: "error option"

record 'x ResourceProvider =
  logger :: Logger
  timeout :: Duration
  detectors :: "'x Detector list"
  detectedResource :: "resourceResult option"
  once :: bool

definition NewResourceProvider ::
  "Logger \<Rightarrow> Duration \<Rightarrow> 'x Detector list \<Rightarrow> 'x ResourceProvider" where
  "NewResourceProvider lg t ds =
     \<lparr>logger = lg, timeout = t, detectors = ds, detectedResource = None, once = False\<rparr>"

definition CreateResourceProvider ::
  "('c, 'x) ResourceProviderFactory \<Rightarrow> ProcessorCreateParams \<Rightarrow> Duration \<Rightarrow>
   'c ResourceDetectorConfig \<Rightarrow> DetectorType list \<Rightarrow> 'x world_scheme \<Rightarrow>
   (error + 'x ResourceProvider) \<times> 'x world_scheme" where
  "CreateResourceProvider f params t detectorConfigs detectorTypes w =
     (case getDetectors f params detectorConfigs detectorTypes w of
        (Inl e, w') \<Rightarrow> (Inl e, w')
      | (Inr ds, w') \<Rightarrow> (Inr (NewResourceProvider (Logger params) t ds), w'))"

text \<open>
  The loop of \<^verbatim>\<open>detectResource\<close> over the detectors still to run, with the resource
  \<^verbatim>\<open>res\<close> merged so far. \<^verbatim>\<open>Inl\<close> is the early return on a detector's error.
\<close>

fun detectResource_loop ::
  "context \<Rightarrow> 'x Detector list \<Rightarrow> Resource \<Rightarrow> 'x world_scheme \<Rightarrow>
   (error + Resource) \<times> 'x world_scheme" where
  "detectResource_loop ctx [] res w = (Inr res, w)"
| "detectResource_loop ctx (detector # rest) res w =
     (case Detect detector ctx w of
        (Inl e, w') \<Rightarrow> (Inl e, w')
      | (Inr r, w') \<Rightarrow> detectResource_loop ctx rest (MergeResource res r False) w')"

definition detectResource ::
  "context \<Rightarrow> 'x ResourceProvider \<Rightarrow> 'x world_scheme \<Rightarrow> 'x ResourceProvider \<times> 'x world_scheme" where
  "detectResource ctx p w =
     (let p0 = p\<lparr>detectedResource := Some \<lparr>resource = None, err = None\<rparr>\<rparr>;
          res = NewResource;
          w0 = Info (logger p0) ''began detecting resource information'' [] w
      in case detectResource_loop ctx (ResourceProvider.detectors p0) res w0 of
           (Inl e, w1) \<Rightarrow>
             (p0\<lparr>detectedResource :=
                   map_option (\<lambda>rr. rr\<lparr>err := Some e\<rparr>) (detectedResource p0)\<rparr>, w1)
         | (Inr res', w1) \<Rightarrow>
             (p0\<lparr>detectedResource :=
                   map_option (\<lambda>rr. rr\<lparr>resource := Some res'\<rparr>) (detectedResource p0)\<rparr>,
              Info (logger p0) ''detected resource information''
                [(''resource'', Map_val (AttributesToMap (Attributes res')))] w1))"

text \<open>
  \<^verbatim>\<open>Get\<close>: \<^verbatim>\<open>once.Do\<close> runs its function when the \<^verbatim>\<open>sync.Once\<close> has not run one yet, and
  marks it as run. The read of \<^verbatim>\<open>p.detectedResource\<close> through a nil pointer panics: the
  result \<^verbatim>\<open>None\<close>.
\<close>

definition Get ::
  "context \<Rightarrow> 'x ResourceProvider \<Rightarrow> 'x world_scheme \<Rightarrow>
   (Resource option \<times> error option) option \<times> 'x ResourceProvider \<times> 'x world_scheme" where
  "Get ctx p w =
     (case (if once p then (p, w)
            else (case detectResource (WithTimeout ctx (timeout p)) p w of
                    (p1, w1) \<Rightarrow> (p1\<lparr>once := True\<rparr>, w1))) of
        (p', w') \<Rightarrow>
          (case detectedResource p' of
             None \<Rightarrow> (None, p', w')
           | Some rr \<Rightarrow> (Some (resource rr, err rr), p', w')))"

text \<open>A caller that calls \<^verbatim>\<open>Get\<close> on one provider once for every context of a list.\<close>

fun Get_repeatedly ::
  "context list \<Rightarrow> 'x ResourceProvider \<Rightarrow> 'x world_scheme \<Rightarrow>
   (Resource option \<times> error option) option list \<times> 'x ResourceProvider \<times> 'x world_scheme" where
  "Get_repeatedly [] p w = ([], p, w)"
| "Get_repeatedly (ctx # ctxs) p w =
     (case Get ctx p w of
        (r, p', w') \<Rightarrow>
          (case Get_repeatedly ctxs p' w' of (rs, p'', w'') \<Rightarrow> (r # rs, p'', w'')))"

section \<open>Detectors whose calls may not return\<close>

text \<open>
  The definitions above take every call of \<^verbatim>\<open>Detect\<close> to return. In Go a call of
  \<^verbatim>\<open>Detect\<close> may block. \<^verbatim>\<open>Get\<close> and \<^verbatim>\<open>detectResource\<close> call it in the calling goroutine
  and wait for it: they start no goroutine and never look at the \<^verbatim>\<open>Done\<close> channel of the
  context, which they only hand on. So the provider is written once more over detectors
  whose call either returns or does not, the value \<^verbatim>\<open>None\<close>; a function of the provider
  that waits for such a call does not return either. Apart from that the definitions are
  the ones above, line for line, with the suffix \<^verbatim>\<open>_b\<close> on the names.
\<close>

record 'x Detector_b =
  Detect_b ::
    "context \<Rightarrow> 'x world_scheme \<Rightarrow> ((error + Resource) \<times> 'x world_scheme) option"

record 'x ResourceProvider_b =
  logger_b :: Logger
  timeout_b :: Duration
  detectors_b :: "'x Detector_b list"
  detectedResource_b :: "resourceResult option"
  once_b :: bool

definition NewResourceProvider_b ::
  "Logger \<Rightarrow> Duration \<Rightarrow> 'x Detector_b list \<Rightarrow> 'x ResourceProvider_b" where
  "NewResourceProvider_b lg t ds =
     \<lparr>logger_b = lg, timeout_b = t, detectors_b = ds, detectedResource_b = None,
      once_b = False\<rparr>"

fun detectResource_loop_b ::
  "context \<Rightarrow> 'x Detector_b list \<Rightarrow> Resource \<Rightarrow> 'x world_scheme \<Rightarrow>
   ((error + Resource) \<times> 'x world_scheme) option" where
  "detectResource_loop_b ctx [] res w = Some (Inr res, w)"
| "detectResource_loop_b ctx (detector # rest) res w =
     (case Detect_b detector ctx w of
        None \<Rightarrow> None
      | Some (Inl e, w') \<Rightarrow> Some (Inl e, w')
      | Some (Inr r, w') \<Rightarrow> detectResource_loop_b ctx rest (MergeResource res r False) w')"

definition detectResource_b ::
  "context \<Rightarrow> 'x ResourceProvider_b \<Rightarrow> 'x world_scheme \<Rightarrow>
   ('x ResourceProvider_b \<times> 'x world_scheme) option" where
  "detectResource_b ctx p w =
     (let p0 = p\<lparr>detectedResource_b := Some \<lparr>resource = None, err = None\<rparr>\<rparr>;
          res = NewResource;
          w0 = Info (logger_b p0) ''began detecting resource information'' [] w
      in case detectResource_loop_b ctx (detectors_b p0) res w0 of
           None \<Rightarrow> None
         | Some (Inl e, w1) \<Rightarrow>
             Some (p0\<lparr>detectedResource_b :=
                     map_option (\<lambda>rr. rr\<lparr>err := Some e\<rparr>) (detectedResource_b p0)\<rparr>, w1)
         | Some (Inr res', w1) \<Rightarrow>
             Some (p0\<lparr>detectedResource_b :=
                     map_option (\<lambda>rr. rr\<lparr>resource := Some res'\<rparr>) (detectedResource_b p0)\<rparr>,
                   Info (logger_b p0) ''detected resource information''
                     [(''resource'', Map_val (AttributesToMap (Attributes res')))] w1))"

text \<open>
  \<^verbatim>\<open>Get_b\<close> is \<^verbatim>\<open>None\<close> when the call of \<^verbatim>\<open>Get\<close> does not return. When it returns, the
  result is that of \<^verbatim>\<open>Get\<close> above.
\<close>

definition Get_b ::
  "context \<Rightarrow> 'x ResourceProvider_b \<Rightarrow> 'x world_scheme \<Rightarrow>
   ((Resource option \<times> error option) option \<times> 'x ResourceProvider_b \<times> 'x world_scheme) option"
  where
  "Get_b ctx p w =
     (case (if once_b p then Some (p, w)
            else (case detectResource_b (WithTimeout ctx (timeout_b p)) p w of
                    None \<Rightarrow> None
                  | Some (p1, w1) \<Rightarrow> Some (p1\<lparr>once_b := True\<rparr>, w1))) of
        None \<Rightarrow> None
      | Some (p', w') \<Rightarrow>
          (case detectedResource_b p' of
             None \<Rightarrow> Some (None, p', w')
           | Some rr \<Rightarrow> Some (Some (resource rr, err rr), p', w')))"

text \<open>A detector of the first kind, whose every call returns, as one of the second kind.\<close>

definition returning :: "'x Detector \<Rightarrow> 'x Detector_b" where
  "returning d = \<lparr>Detect_b = (\<lambda>ctx w. Some (Detect d ctx w))\<rparr>"

section \<open>Test doubles\<close>

text \<open>
  A world in which every call of a test detector's \<^verbatim>\<open>Detect\<close> and of a test detector
  constructor leaves a mark, as the mock of a Go test would count its calls.
\<close>

record test_world = world +
  calls :: "string list"

definition mockDetector :: "string \<Rightarrow> error + Resource \<Rightarrow> unit test_world_ext Detector" where
  "mockDetector name result =
     \<lparr>Detect = (\<lambda>ctx w. (result, w\<lparr>calls := calls w @ [''Detect '' @ name]\<rparr>))\<rparr>"

definition mockFactory ::
  "string \<Rightarrow> error + unit test_world_ext Detector \<Rightarrow> (unit, unit test_world_ext) DetectorFactory" where
  "mockFactory name result =
     (\<lambda>params cfg w. (result, w\<lparr>calls := calls w @ [''construct '' @ name]\<rparr>))"

definition world0 :: test_world where
  "world0 = \<lparr>logs = [], calls = []\<rparr>"

definition detectorA :: "unit test_world_ext Detector" where
  "detectorA = mockDetector ''A'' (Inr \<lparr>Attributes = [(''a'', AttributeValueINT 1)]\<rparr>)"

definition detectorA2 :: "unit test_world_ext Detector" where
  "detectorA2 =
     mockDetector ''A2''
       (Inr \<lparr>Attributes = [(''a'', AttributeValueINT 2), (''b'', AttributeValueINT 2)]\<rparr>)"

definition detectorB :: "unit test_world_ext Detector" where
  "detectorB = mockDetector ''B'' (Inl (Err ''unreachable''))"

definition detectorC :: "unit test_world_ext Detector" where
  "detectorC = mockDetector ''C'' (Inr \<lparr>Attributes = [(''c'', AttributeValueINT 3)]\<rparr>)"

definition mockConfigs :: "unit ResourceDetectorConfig" where
  "mockConfigs = \<lparr>GetConfigFromType = (\<lambda>detectorType. ())\<rparr>"

definition mockRegistry :: "DetectorType \<rightharpoonup> (unit, unit test_world_ext) DetectorFactory" where
  "mockRegistry = [''X'' \<mapsto> mockFactory ''X'' (Inr detectorA)]"

text \<open>
  An attribute map with one attribute of every type: the double is 1.5, the nested map
  holds an unset value.
\<close>

definition sampleAttributes :: AttributeMap where
  "sampleAttributes =
     [(''flag'', AttributeValueBOOL True),
      (''count'', AttributeValueINT 7),
      (''ratio'', AttributeValueDOUBLE 0x3FF8000000000000),
      (''name'', AttributeValueSTRING ''host-1''),
      (''labels'',
         AttributeValueMAP [(''zone'', AttributeValueSTRING ''b''), (''unset'', AttributeValueNULL)]),
      (''ports'', AttributeValueARRAY [AttributeValueINT 80, AttributeValueSTRING ''http''])]"

text \<open>
  Test detectors for calls that may not return. \<^verbatim>\<open>neverReturns\<close> ignores its context and
  blocks on every call. \<^verbatim>\<open>deadlineAware\<close> waits for its context to be done: under a context
  that \<^verbatim>\<open>WithTimeout\<close> derived it returns the error of the expired deadline, under a
  context with no deadline it blocks. \<^verbatim>\<open>only_under c d\<close> is \<^verbatim>\<open>d\<close> under the context
  \<^verbatim>\<open>c\<close> and blocks under every other context.
\<close>

definition neverReturns :: "unit test_world_ext Detector_b" where
  "neverReturns = \<lparr>Detect_b = (\<lambda>ctx w. None)\<rparr>"

definition deadlineAware :: "unit test_world_ext Detector_b" where
  "deadlineAware =
     \<lparr>Detect_b = (\<lambda>ctx w.
        case ctx of
          Context n \<Rightarrow> None
        | WithTimeout parent d \<Rightarrow>
            Some (Inl (Err ''context deadline exceeded''),
                  w\<lparr>calls := calls w @ [''Detect deadlineAware'']\<rparr>))\<rparr>"

definition only_under :: "context \<Rightarrow> 'x Detector_b \<Rightarrow> 'x Detector_b" where
  "only_under c d = \<lparr>Detect_b = (\<lambda>ctx w. if ctx = c then Detect_b d ctx w else None)\<rparr>"

section \<open>Lookup lemmas for the attribute map\<close>

lemma Get_attr_map_of: "Get_attr am k = map_of am k"
  by (induction am k rule: Get_attr.induct) auto

lemma Get_attr_append:
  "Get_attr (am @ bm) k = (case Get_attr am k of None \<Rightarrow> Get_attr bm k | Some v \<Rightarrow> Some v)"
  by (induction am k rule: Get_attr.induct) auto

lemma Get_attr_Update_attr:
  "Get_attr (Update_attr am k v) k' =
     (if k' = k \<and> Get_attr am k \<noteq> None then Some v else Get_attr am k')"
  by (induction am k v rule: Update_attr.induct) auto

lemma Get_attr_Insert:
  "Get_attr (Insert am k v) k' =
     (case Get_attr am k' of None \<Rightarrow> (if k' = k then Some v else None) | Some w \<Rightarrow> Some w)"
  by (auto simp: Insert_def Get_attr_append split: option.splits)

lemma Get_attr_Upsert:
  "Get_attr (Upsert am k v) k' = (if k' = k then Some v else Get_attr am k')"
  by (auto simp: Upsert_def Get_attr_append Get_attr_Update_attr split: option.splits)

lemma Get_attr_None_iff: "Get_attr am k = None \<longleftrightarrow> k \<notin> fst ` set am"
  by (simp add: Get_attr_map_of map_of_eq_None_iff)

lemma Get_attr_Range_Insert:
  "Get_attr (Range_attr src (\<lambda>k v toAttr. Insert toAttr k v) tgt) k' =
     (case Get_attr tgt k' of None \<Rightarrow> Get_attr src k' | Some w \<Rightarrow> Some w)"
  by (induction src arbitrary: tgt) (auto simp: Get_attr_Insert split: option.splits)

lemma Get_attr_Range_Upsert:
  "Get_attr (Range_attr src (\<lambda>k v toAttr. Upsert toAttr k v) tgt) k' =
     (case Get_attr (rev src) k' of None \<Rightarrow> Get_attr tgt k' | Some w \<Rightarrow> Some w)"
  by (induction src arbitrary: tgt)
     (auto simp: Get_attr_Upsert Get_attr_append split: option.splits)

lemma Get_attr_rev_distinct:
  "distinct (map fst am) \<Longrightarrow> Get_attr (rev am) k = Get_attr am k"
proof (induction am)
  case Nil
  then show ?case by simp
next
  case (Cons kv am)
  obtain a b where kv: "kv = (a, b)" by (cases kv)
  from Cons.prems kv have fresh: "Get_attr am a = None" and d: "distinct (map fst am)"
    by (auto simp: Get_attr_None_iff)
  show ?case
    using Cons.IH[OF d] fresh by (auto simp: kv Get_attr_append split: option.splits)
qed

lemma Get_attr_Some_distinct:
  "distinct (map fst am) \<Longrightarrow> (k, v) \<in> set am \<Longrightarrow> Get_attr am k = Some v"
  by (simp add: Get_attr_map_of)

lemma Get_attr_MergeResource_insert:
  "Get_attr (Attributes (MergeResource tgt src False)) k =
     (case Get_attr (Attributes tgt) k of None \<Rightarrow> Get_attr (Attributes src) k | Some w \<Rightarrow> Some w)"
  by (auto simp: MergeResource_def IsEmptyResource_def Len_def Get_attr_Range_Insert
           split: option.splits)

lemma Get_attr_MergeResource_override:
  "Get_attr (Attributes (MergeResource tgt src True)) k =
     (case Get_attr (rev (Attributes src)) k of None \<Rightarrow> Get_attr (Attributes tgt) k
      | Some w \<Rightarrow> Some w)"
  by (auto simp: MergeResource_def IsEmptyResource_def Len_def Get_attr_Range_Upsert
           split: option.splits)

lemma set_Insert: "set am \<subseteq> set (Insert am k v)"
  by (auto simp: Insert_def split: option.splits)

lemma in_set_Update_attr:
  "(k', v') \<in> set am \<Longrightarrow> k' \<noteq> k \<Longrightarrow> (k', v') \<in> set (Update_attr am k v)"
  by (induction am k v rule: Update_attr.induct) auto

lemma in_set_Upsert:
  "(k', v') \<in> set am \<Longrightarrow> k' \<noteq> k \<Longrightarrow> (k', v') \<in> set (Upsert am k v)"
  by (auto simp: Upsert_def in_set_Update_attr split: option.splits)

lemma keys_Update_attr: "map fst (Update_attr am k v) = map fst am"
  by (induction am k v rule: Update_attr.induct) auto

lemma keys_Insert: "fst ` set am \<subseteq> fst ` set (Insert am k v)"
  by (auto simp: Insert_def split: option.splits)

lemma keys_Upsert: "fst ` set am \<subseteq> fst ` set (Upsert am k v)"
proof -
  have "fst ` set (Update_attr am k v) = fst ` set am"
    using keys_Update_attr[of am k v] by (metis set_map)
  then show ?thesis
    by (auto simp: Upsert_def split: option.splits)
qed

lemma in_set_Range_merge:
  "(k', v') \<in> set tgt \<Longrightarrow> k' \<notin> fst ` set src \<Longrightarrow>
   (k', v') \<in> set (Range_attr src (\<lambda>k v toAttr. if b then Upsert toAttr k v else Insert toAttr k v) tgt)"
proof (induction src arbitrary: tgt)
  case Nil
  then show ?case by simp
next
  case (Cons kv src)
  obtain k v where kv: "kv = (k, v)" by (cases kv)
  from Cons.prems kv have ne: "k' \<noteq> k" and rest: "k' \<notin> fst ` set src" by auto
  have "(k', v') \<in> set (if b then Upsert tgt k v else Insert tgt k v)"
    using Cons.prems(1) ne set_Insert[of tgt k v] by (auto simp: in_set_Upsert)
  from Cons.IH[OF this rest] show ?case by (simp add: kv)
qed

lemma keys_Range_merge:
  "fst ` set tgt \<subseteq>
   fst ` set (Range_attr src (\<lambda>k v toAttr. if b then Upsert toAttr k v else Insert toAttr k v) tgt)"
proof (induction src arbitrary: tgt)
  case Nil
  then show ?case by simp
next
  case (Cons kv src)
  obtain k v where kv: "kv = (k, v)" by (cases kv)
  have "fst ` set tgt \<subseteq> fst ` set (if b then Upsert tgt k v else Insert tgt k v)"
    using keys_Insert[of tgt k v] keys_Upsert[of tgt k v] by simp
  also have "\<dots> \<subseteq> fst ` set (Range_attr src (\<lambda>k v toAttr. if b then Upsert toAttr k v else Insert toAttr k v)
       (if b then Upsert tgt k v else Insert tgt k v))"
    by (rule Cons.IH)
  finally show ?case by (simp add: kv)
qed

section \<open>Flattening, as lookups\<close>

lemma getSerializableArray_loop_map:
  "getSerializableArray_loop inArr outArr = outArr @ map UnwrapAttribute inArr"
  by (induction inArr arbitrary: outArr) auto

lemma AttributesToMap_range_lookup:
  "AttributesToMap_range am mp k =
     (case Get_attr (rev am) k of None \<Rightarrow> mp k | Some v \<Rightarrow> Some (UnwrapAttribute v))"
  by (induction am arbitrary: mp) (auto simp: Get_attr_append split: option.splits)

lemma AttributesToMap_lookup:
  "AttributesToMap am k = map_option UnwrapAttribute (Get_attr (rev am) k)"
  by (simp add: AttributesToMap_def AttributesToMap_range_lookup split: option.splits)

lemma dom_AttributesToMap: "dom (AttributesToMap am) = fst ` set am"
proof -
  have "(AttributesToMap am k = None) = (k \<notin> fst ` set am)" for k
    using Get_attr_None_iff[of "rev am" k] by (simp add: AttributesToMap_lookup)
  then show ?thesis by (auto simp: dom_def)
qed

lemma sampleAttributes_flatten:
  "AttributesToMap sampleAttributes ''flag'' = Some (Bool_val True)"
  "AttributesToMap sampleAttributes ''count'' = Some (Int64_val 7)"
  "AttributesToMap sampleAttributes ''ratio'' = Some (Float64_val 0x3FF8000000000000)"
  "AttributesToMap sampleAttributes ''name'' = Some (String_val ''host-1'')"
  "AttributesToMap sampleAttributes ''other'' = None"
  "\<exists>m. AttributesToMap sampleAttributes ''labels'' = Some (Map_val m) \<and>
       m ''zone'' = Some (String_val ''b'') \<and> m ''unset'' = Some Nil_val"
  by (simp_all add: sampleAttributes_def AttributesToMap_def)

section \<open>The provider, step by step\<close>

lemma detectResource_fresh:
  "detectResource ctx (NewResourceProvider lg t ds) w =
     (case detectResource_loop ctx ds NewResource
             (Info lg ''began detecting resource information'' [] w) of
        (Inl e, w1) \<Rightarrow>
          (\<lparr>logger = lg, timeout = t, detectors = ds,
            detectedResource = Some \<lparr>resource = None, err = Some e\<rparr>, once = False\<rparr>, w1)
      | (Inr res, w1) \<Rightarrow>
          (\<lparr>logger = lg, timeout = t, detectors = ds,
            detectedResource = Some \<lparr>resource = Some res, err = None\<rparr>, once = False\<rparr>,
           Info lg ''detected resource information''
             [(''resource'', Map_val (AttributesToMap (Attributes res)))] w1))"
  by (simp add: detectResource_def NewResourceProvider_def Let_def split: prod.splits sum.splits)

lemma Get_fresh:
  "Get ctx (NewResourceProvider lg t ds) w =
     (case detectResource_loop (WithTimeout ctx t) ds NewResource
             (Info lg ''began detecting resource information'' [] w) of
        (Inl e, w1) \<Rightarrow>
          (Some (None, Some e),
           \<lparr>logger = lg, timeout = t, detectors = ds,
            detectedResource = Some \<lparr>resource = None, err = Some e\<rparr>, once = True\<rparr>, w1)
      | (Inr res, w1) \<Rightarrow>
          (Some (Some res, None),
           \<lparr>logger = lg, timeout = t, detectors = ds,
            detectedResource = Some \<lparr>resource = Some res, err = None\<rparr>, once = True\<rparr>,
           Info lg ''detected resource information''
             [(''resource'', Map_val (AttributesToMap (Attributes res)))] w1))"
proof -
  have t: "timeout (NewResourceProvider lg t ds) = t" and o: "\<not> once (NewResourceProvider lg t ds)"
    by (simp_all add: NewResourceProvider_def)
  show ?thesis
    unfolding Get_def t using o
    by (simp add: detectResource_fresh split: prod.splits sum.splits)
qed

lemma Get_done:
  "once p \<Longrightarrow> detectedResource p = Some rr \<Longrightarrow> Get ctx p w = (Some (resource rr, err rr), p, w)"
  by (simp add: Get_def)

lemma Get_repeatedly_done:
  "once p \<Longrightarrow> detectedResource p = Some rr \<Longrightarrow>
   Get_repeatedly ctxs p w = (replicate (length ctxs) (Some (resource rr, err rr)), p, w)"
  by (induction ctxs) (simp_all add: Get_done)

lemma Get_first_shape:
  "\<exists>rr p1 w1. Get ctx (NewResourceProvider lg t ds) w = (Some (resource rr, err rr), p1, w1)
     \<and> once p1 \<and> detectedResource p1 = Some rr
     \<and> ((\<exists>res. resource rr = Some res \<and> err rr = None) \<or> (\<exists>e. resource rr = None \<and> err rr = Some e))"
proof (cases "detectResource_loop (WithTimeout ctx t) ds NewResource
             (Info lg ''began detecting resource information'' [] w)")
  case (Pair r w1)
  show ?thesis
  proof (cases r)
    case (Inl e)
    show ?thesis
      apply (rule exI[of _ "\<lparr>resource = None, err = Some e\<rparr>"])
      using Pair Inl by (simp add: Get_fresh)
  next
    case (Inr res)
    show ?thesis
      apply (rule exI[of _ "\<lparr>resource = Some res, err = None\<rparr>"])
      using Pair Inr by (simp add: Get_fresh)
  qed
qed

lemma Detect_mockDetector:
  "Detect (mockDetector name result) ctx w =
     (result, w\<lparr>calls := calls w @ [''Detect '' @ name]\<rparr>)"
  by (simp add: mockDetector_def)

lemma Get_repeatedly_fresh:
  "snd (Get_repeatedly (ctx # ctxs) (NewResourceProvider lg t ds) w) =
     snd (Get ctx (NewResourceProvider lg t ds) w)"
proof -
  obtain rr p1 w1 where
    g: "Get ctx (NewResourceProvider lg t ds) w = (Some (resource rr, err rr), p1, w1)"
    and d: "once p1" "detectedResource p1 = Some rr"
    using Get_first_shape[of ctx lg t ds w] by blast
  show ?thesis
    by (simp add: g Get_repeatedly_done[OF d])
qed

lemma Get_repeatedly_marks:
  "calls (snd (snd (Get_repeatedly [Context 0, Context 1, Context 2]
                      (NewResourceProvider 0 5 [detectorA, detectorA2]) world0))) =
     [''Detect A'', ''Detect A2'']"
  unfolding Get_repeatedly_fresh
  by (simp add: Get_fresh detectorA_def detectorA2_def Detect_mockDetector Info_def world0_def)

lemma getDetectors_unknown_second:
  assumes "reg X = Some fX" and "reg bogus = None"
  shows "getDetectors (NewProviderFactory reg) params cfgs (X # bogus # rest) w =
           (case fX params (GetConfigFromType cfgs X) w of
              (Inl e, w1) \<Rightarrow> (Inl (FailedCreatingDetector X e), w1)
            | (Inr dX, w1) \<Rightarrow> (Inl (InvalidDetectorKey bogus), w1))"
  using assms by (simp add: getDetectors_def NewProviderFactory_def split: prod.splits sum.splits)

section \<open>The provider over detectors that may not return\<close>

lemma detectResource_loop_b_append:
  "detectResource_loop_b ctx (pre @ post) res w =
     (case detectResource_loop_b ctx pre res w of
        None \<Rightarrow> None
      | Some (Inl e, w') \<Rightarrow> Some (Inl e, w')
      | Some (Inr r, w') \<Rightarrow> detectResource_loop_b ctx post r w')"
  by (induction pre arbitrary: res w) (auto split: option.splits sum.splits prod.splits)

lemma detectResource_loop_b_returning:
  "detectResource_loop_b ctx (map returning ds) res w = Some (detectResource_loop ctx ds res w)"
  by (induction ds arbitrary: res w) (auto simp: returning_def split: sum.splits prod.splits)

lemma detectResource_loop_b_only_under:
  "detectResource_loop_b c (map (only_under c) ds) res w = detectResource_loop_b c ds res w"
  by (induction ds arbitrary: res w)
     (auto simp: only_under_def split: option.splits sum.splits prod.splits)

lemma detectResource_b_fresh:
  "detectResource_b ctx (NewResourceProvider_b lg t ds) w =
     (case detectResource_loop_b ctx ds NewResource
             (Info lg ''began detecting resource information'' [] w) of
        None \<Rightarrow> None
      | Some (Inl e, w1) \<Rightarrow>
          Some (\<lparr>logger_b = lg, timeout_b = t, detectors_b = ds,
                 detectedResource_b = Some \<lparr>resource = None, err = Some e\<rparr>, once_b = False\<rparr>,
                w1)
      | Some (Inr res, w1) \<Rightarrow>
          Some (\<lparr>logger_b = lg, timeout_b = t, detectors_b = ds,
                 detectedResource_b = Some \<lparr>resource = Some res, err = None\<rparr>, once_b = False\<rparr>,
                Info lg ''detected resource information''
                  [(''resource'', Map_val (AttributesToMap (Attributes res)))] w1))"
  by (simp add: detectResource_b_def NewResourceProvider_b_def Let_def
        split: option.splits prod.splits sum.splits)

lemma Get_b_fresh:
  "Get_b ctx (NewResourceProvider_b lg t ds) w =
     (case detectResource_loop_b (WithTimeout ctx t) ds NewResource
             (Info lg ''began detecting resource information'' [] w) of
        None \<Rightarrow> None
      | Some (Inl e, w1) \<Rightarrow>
          Some (Some (None, Some e),
                \<lparr>logger_b = lg, timeout_b = t, detectors_b = ds,
                 detectedResource_b = Some \<lparr>resource = None, err = Some e\<rparr>, once_b = True\<rparr>,
                w1)
      | Some (Inr res, w1) \<Rightarrow>
          Some (Some (Some res, None),
                \<lparr>logger_b = lg, timeout_b = t, detectors_b = ds,
                 detectedResource_b = Some \<lparr>resource = Some res, err = None\<rparr>, once_b = True\<rparr>,
                Info lg ''detected resource information''
                  [(''resource'', Map_val (AttributesToMap (Attributes res)))] w1))"
proof -
  have t: "timeout_b (NewResourceProvider_b lg t ds) = t"
    and o: "\<not> once_b (NewResourceProvider_b lg t ds)"
    by (simp_all add: NewResourceProvider_b_def)
  show ?thesis
  proof (cases "detectResource_loop_b (WithTimeout ctx t) ds NewResource
             (Info lg ''began detecting resource information'' [] w)")
    case None
    then show ?thesis
      unfolding Get_b_def t using o by (simp add: detectResource_b_fresh)
  next
    case (Some rw)
    obtain r w1 where rw: "rw = (r, w1)" by (cases rw)
    show ?thesis
      unfolding Get_b_def t using o Some rw
      by (cases r) (simp_all add: detectResource_b_fresh)
  qed
qed

lemma Get_b_returning:
  "map_option (\<lambda>(r, p, w'). (r, detectedResource_b p, once_b p, w'))
     (Get_b ctx (NewResourceProvider_b lg t (map returning ds)) w) =
   Some (case Get ctx (NewResourceProvider lg t ds) w of
           (r, p, w') \<Rightarrow> (r, detectedResource p, once p, w'))"
  by (simp add: Get_b_fresh Get_fresh detectResource_loop_b_returning
        split: prod.splits sum.splits)

lemma deadlineAware_needs_deadline:
  "Detect_b deadlineAware (Context 0) world0 = None"
  by (simp add: deadlineAware_def)

section \<open>The claims\<close>

text \<open>
  C1. The detection pipeline of a provider runs once however often \<^verbatim>\<open>Get\<close> is called.
  The first \<^verbatim>\<open>Get\<close> on a new provider is one run of \<^verbatim>\<open>detectResource\<close> under the
  context derived with the provider's timeout, and it returns either a resource and no
  error or no resource and an error. Any sequence of calls of \<^verbatim>\<open>Get\<close> (under any
  contexts) returns the result of the first call every time, and leaves the provider, its
  cached result included, and the world as the first call left them: no detector runs
  again and the cached result is not changed.
\<close>

theorem run_once:
  "Get_repeatedly (ctx # ctxs) (NewResourceProvider lg t ds) w =
     (case Get ctx (NewResourceProvider lg t ds) w of
        (r, p', w') \<Rightarrow> (replicate (Suc (length ctxs)) r, p', w'))
   \<and> Get ctx (NewResourceProvider lg t ds) w =
     (case detectResource (WithTimeout ctx t) (NewResourceProvider lg t ds) w of
        (p1, w1) \<Rightarrow>
          (map_option (\<lambda>rr. (resource rr, err rr)) (detectedResource p1), p1\<lparr>once := True\<rparr>, w1))
   \<and> ((\<exists>res. fst (Get ctx (NewResourceProvider lg t ds) w) = Some (Some res, None))
      \<or> (\<exists>e. fst (Get ctx (NewResourceProvider lg t ds) w) = Some (None, Some e)))"
proof -
  obtain rr p1 w1 where
    g: "Get ctx (NewResourceProvider lg t ds) w = (Some (resource rr, err rr), p1, w1)"
    and d: "once p1" "detectedResource p1 = Some rr"
    and s: "(\<exists>res. resource rr = Some res \<and> err rr = None) \<or> (\<exists>e. resource rr = None \<and> err rr = Some e)"
    using Get_first_shape[of ctx lg t ds w] by blast
  have 1: "Get_repeatedly (ctx # ctxs) (NewResourceProvider lg t ds) w =
     (case Get ctx (NewResourceProvider lg t ds) w of
        (r, p', w') \<Rightarrow> (replicate (Suc (length ctxs)) r, p', w'))"
    by (simp add: g Get_repeatedly_done[OF d])
  have 2: "Get ctx (NewResourceProvider lg t ds) w =
     (case detectResource (WithTimeout ctx t) (NewResourceProvider lg t ds) w of
        (p1, w1) \<Rightarrow>
          (map_option (\<lambda>rr. (resource rr, err rr)) (detectedResource p1), p1\<lparr>once := True\<rparr>, w1))"
    by (simp add: Get_fresh detectResource_fresh split: prod.splits sum.splits)
  have 3: "(\<exists>res. fst (Get ctx (NewResourceProvider lg t ds) w) = Some (Some res, None))
      \<or> (\<exists>e. fst (Get ctx (NewResourceProvider lg t ds) w) = Some (None, Some e))"
    using s by (auto simp: g)
  from 1 2 3 show ?thesis by blast
qed

text \<open>
  C2. For detectors D1, D2, D3 where D1 succeeds and D2 then returns an error, \<^verbatim>\<open>Get\<close>
  returns that error and no resource (nothing of what D1 detected), caches exactly that,
  and returns the same on any later call with nothing changed. The world after \<^verbatim>\<open>Get\<close>
  is the world as D2 left it, whatever D3 is: D3 is not called.
\<close>

theorem abort_on_failure:
  assumes d1: "Detect D1 (WithTimeout ctx t)
                 (Info lg ''began detecting resource information'' [] w) = (Inr r1, w1)"
      and d2: "Detect D2 (WithTimeout ctx t) w1 = (Inl e, w2)"
  shows "Get ctx (NewResourceProvider lg t [D1, D2, D3]) w =
           (Some (None, Some e),
            \<lparr>logger = lg, timeout = t, detectors = [D1, D2, D3],
             detectedResource = Some \<lparr>resource = None, err = Some e\<rparr>, once = True\<rparr>, w2)
         \<and> Get ctx'
             \<lparr>logger = lg, timeout = t, detectors = [D1, D2, D3],
              detectedResource = Some \<lparr>resource = None, err = Some e\<rparr>, once = True\<rparr> w2 =
           (Some (None, Some e),
            \<lparr>logger = lg, timeout = t, detectors = [D1, D2, D3],
             detectedResource = Some \<lparr>resource = None, err = Some e\<rparr>, once = True\<rparr>, w2)"
  by (simp add: Get_fresh Get_done d1 d2)

text \<open>
  The same with test detectors that mark their calls: only A and B were called.
\<close>

theorem abort_on_failure_witness:
  "Detect detectorA (WithTimeout (Context 0) 5)
     (Info 0 ''began detecting resource information'' [] world0) =
     (Inr \<lparr>Attributes = [(''a'', AttributeValueINT 1)]\<rparr>,
      (Info 0 ''began detecting resource information'' [] world0)\<lparr>calls := [''Detect A'']\<rparr>)
   \<and> Detect detectorB (WithTimeout (Context 0) 5)
       ((Info 0 ''began detecting resource information'' [] world0)\<lparr>calls := [''Detect A'']\<rparr>) =
     (Inl (Err ''unreachable''),
      (Info 0 ''began detecting resource information'' [] world0)\<lparr>calls := [''Detect A'', ''Detect B'']\<rparr>)
   \<and> fst (Get (Context 0) (NewResourceProvider 0 5 [detectorA, detectorB, detectorC]) world0) =
       Some (None, Some (Err ''unreachable''))
   \<and> calls (snd (snd (Get (Context 0) (NewResourceProvider 0 5 [detectorA, detectorB, detectorC]) world0))) =
       [''Detect A'', ''Detect B'']"
proof -
  have a: "Detect detectorA (WithTimeout (Context 0) 5)
     (Info 0 ''began detecting resource information'' [] world0) =
     (Inr \<lparr>Attributes = [(''a'', AttributeValueINT 1)]\<rparr>,
      (Info 0 ''began detecting resource information'' [] world0)\<lparr>calls := [''Detect A'']\<rparr>)"
    by (simp add: detectorA_def Detect_mockDetector Info_def world0_def)
  have b: "Detect detectorB (WithTimeout (Context 0) 5)
       ((Info 0 ''began detecting resource information'' [] world0)\<lparr>calls := [''Detect A'']\<rparr>) =
     (Inl (Err ''unreachable''),
      (Info 0 ''began detecting resource information'' [] world0)\<lparr>calls := [''Detect A'', ''Detect B'']\<rparr>)"
    by (simp add: detectorB_def Detect_mockDetector Info_def world0_def)
  show ?thesis
    using abort_on_failure[OF a b, of detectorC "Context 0"] a b by simp
qed

text \<open>
  C3. For detectors D1 then D2 that both succeed, \<^verbatim>\<open>Get\<close> returns the insert-only merge
  of their resources in that order: a key that D1 set keeps D1's value, and D2 gives
  exactly the keys that D1 did not set. With D1 producing {a:1} and D2 producing
  {a:2, b:2} the result is exactly {a:1, b:2}.
\<close>

theorem order_determined_merge:
  assumes d1: "Detect D1 (WithTimeout ctx t)
                 (Info lg ''began detecting resource information'' [] w) = (Inr r1, w1)"
      and d2: "Detect D2 (WithTimeout ctx t) w1 = (Inr r2, w2)"
  shows "fst (Get ctx (NewResourceProvider lg t [D1, D2]) w) =
           Some (Some (MergeResource (MergeResource NewResource r1 False) r2 False), None)
         \<and> Get_attr (Attributes (MergeResource (MergeResource NewResource r1 False) r2 False)) k =
             (case Get_attr (Attributes r1) k of
                None \<Rightarrow> Get_attr (Attributes r2) k | Some v \<Rightarrow> Some v)
         \<and> (r1 = \<lparr>Attributes = [(''a'', AttributeValueINT 1)]\<rparr> \<and>
            r2 = \<lparr>Attributes = [(''a'', AttributeValueINT 2), (''b'', AttributeValueINT 2)]\<rparr> \<longrightarrow>
            fst (Get ctx (NewResourceProvider lg t [D1, D2]) w) =
              Some (Some \<lparr>Attributes = [(''a'', AttributeValueINT 1), (''b'', AttributeValueINT 2)]\<rparr>, None))"
proof -
  have g: "fst (Get ctx (NewResourceProvider lg t [D1, D2]) w) =
           Some (Some (MergeResource (MergeResource NewResource r1 False) r2 False), None)"
    by (simp add: Get_fresh d1 d2)
  have l: "Get_attr (Attributes (MergeResource (MergeResource NewResource r1 False) r2 False)) k =
             (case Get_attr (Attributes r1) k of
                None \<Rightarrow> Get_attr (Attributes r2) k | Some v \<Rightarrow> Some v)"
    by (simp add: Get_attr_MergeResource_insert NewResource_def split: option.splits)
  have c: "MergeResource (MergeResource NewResource \<lparr>Attributes = [(''a'', AttributeValueINT 1)]\<rparr> False)
             \<lparr>Attributes = [(''a'', AttributeValueINT 2), (''b'', AttributeValueINT 2)]\<rparr> False =
           \<lparr>Attributes = [(''a'', AttributeValueINT 1), (''b'', AttributeValueINT 2)]\<rparr>"
    by (simp add: MergeResource_def IsEmptyResource_def Len_def NewResource_def Insert_def)
  from g l c show ?thesis by simp
qed

theorem order_determined_merge_witness:
  "Detect detectorA (WithTimeout (Context 0) 5)
     (Info 0 ''began detecting resource information'' [] world0) =
     (Inr \<lparr>Attributes = [(''a'', AttributeValueINT 1)]\<rparr>,
      (Info 0 ''began detecting resource information'' [] world0)\<lparr>calls := [''Detect A'']\<rparr>)
   \<and> Detect detectorA2 (WithTimeout (Context 0) 5)
       ((Info 0 ''began detecting resource information'' [] world0)\<lparr>calls := [''Detect A'']\<rparr>) =
     (Inr \<lparr>Attributes = [(''a'', AttributeValueINT 2), (''b'', AttributeValueINT 2)]\<rparr>,
      (Info 0 ''began detecting resource information'' [] world0)\<lparr>calls := [''Detect A'', ''Detect A2'']\<rparr>)
   \<and> fst (Get (Context 0) (NewResourceProvider 0 5 [detectorA, detectorA2]) world0) =
       Some (Some \<lparr>Attributes = [(''a'', AttributeValueINT 1), (''b'', AttributeValueINT 2)]\<rparr>, None)"
proof -
  have a: "Detect detectorA (WithTimeout (Context 0) 5)
     (Info 0 ''began detecting resource information'' [] world0) =
     (Inr \<lparr>Attributes = [(''a'', AttributeValueINT 1)]\<rparr>,
      (Info 0 ''began detecting resource information'' [] world0)\<lparr>calls := [''Detect A'']\<rparr>)"
    by (simp add: detectorA_def Detect_mockDetector Info_def world0_def)
  have b: "Detect detectorA2 (WithTimeout (Context 0) 5)
       ((Info 0 ''began detecting resource information'' [] world0)\<lparr>calls := [''Detect A'']\<rparr>) =
     (Inr \<lparr>Attributes = [(''a'', AttributeValueINT 2), (''b'', AttributeValueINT 2)]\<rparr>,
      (Info 0 ''began detecting resource information'' [] world0)\<lparr>calls := [''Detect A'', ''Detect A2'']\<rparr>)"
    by (simp add: detectorA2_def Detect_mockDetector Info_def world0_def)
  show ?thesis
    using order_determined_merge[OF a b, THEN conjunct2, THEN conjunct2] a b by simp
qed

text \<open>
  C4, as amended. For a request of detector types X, bogus (and any further types), where
  X is registered and bogus is not, \<^verbatim>\<open>CreateResourceProvider\<close> fails and returns no
  provider. The constructor of X is called first: the world after the failure is the one
  that constructor left. When it succeeds the error is the invalid-key error that names
  bogus; when it fails the error is the construction error that names X and wraps the
  cause. No type after bogus is looked up or constructed.
\<close>

theorem unknown_type_rejection:
  assumes "reg X = Some fX" and "reg bogus = None"
  shows "CreateResourceProvider (NewProviderFactory reg) params t cfgs ([X, bogus] @ rest) w =
           (case fX params (GetConfigFromType cfgs X) w of
              (Inl e, w1) \<Rightarrow> (Inl (FailedCreatingDetector X e), w1)
            | (Inr dX, w1) \<Rightarrow> (Inl (InvalidDetectorKey bogus), w1))"
proof (cases "fX params (GetConfigFromType cfgs X) w")
  case (Pair r w1)
  then show ?thesis
    by (cases r) (simp_all add: CreateResourceProvider_def getDetectors_unknown_second[OF assms])
qed

theorem unknown_type_rejection_witness:
  "mockRegistry ''X'' = Some (mockFactory ''X'' (Inr detectorA))
   \<and> mockRegistry ''bogus'' = None
   \<and> CreateResourceProvider (NewProviderFactory mockRegistry) \<lparr>Logger = 0\<rparr> 5 mockConfigs
       ([''X'', ''bogus''] @ [''X'']) world0 =
     (Inl (InvalidDetectorKey ''bogus''), world0\<lparr>calls := [''construct X'']\<rparr>)"
proof -
  have x: "mockRegistry ''X'' = Some (mockFactory ''X'' (Inr detectorA))"
    by (simp add: mockRegistry_def)
  have b: "mockRegistry ''bogus'' = None"
    by (simp add: mockRegistry_def)
  show ?thesis
    using unknown_type_rejection[OF x b, of "\<lparr>Logger = 0\<rparr>" 5 mockConfigs "[''X'']" world0] x b
    by (simp add: mockFactory_def world0_def)
qed

text \<open>
  C4, as first stated, says that X is never constructed. With a registry that holds a
  marking constructor for X, the request X, bogus fails with the error that names bogus,
  and the constructor of X has been called.
\<close>

theorem unknown_type_rejection_counterexample:
  "fst (CreateResourceProvider (NewProviderFactory mockRegistry) \<lparr>Logger = 0\<rparr> 5 mockConfigs
          [''X'', ''bogus''] world0) = Inl (InvalidDetectorKey ''bogus'')
   \<and> calls (snd (CreateResourceProvider (NewProviderFactory mockRegistry) \<lparr>Logger = 0\<rparr> 5 mockConfigs
          [''X'', ''bogus''] world0)) = [''construct X'']"
  by (simp add: CreateResourceProvider_def getDetectors_def NewProviderFactory_def
        mockRegistry_def mockFactory_def world0_def)

text \<open>
  C5. \<^verbatim>\<open>MergeResource\<close> with \<^verbatim>\<open>overrideTo = true\<close> sets, for every key of the source,
  the target's value for that key to the source's value (a resource has one entry per
  key). Merging {a:2, b:2} into {a:1} gives {a:2, b:2}.
\<close>

theorem override_merge:
  "(distinct (map fst (Attributes src)) \<longrightarrow> (k, v) \<in> set (Attributes src) \<longrightarrow>
      Get_attr (Attributes (MergeResource tgt src True)) k = Some v)
   \<and> MergeResource \<lparr>Attributes = [(''a'', AttributeValueINT 1)]\<rparr>
       \<lparr>Attributes = [(''a'', AttributeValueINT 2), (''b'', AttributeValueINT 2)]\<rparr> True =
     \<lparr>Attributes = [(''a'', AttributeValueINT 2), (''b'', AttributeValueINT 2)]\<rparr>"
proof -
  have "Get_attr (Attributes (MergeResource tgt src True)) k = Some v"
    if "distinct (map fst (Attributes src))" and "(k, v) \<in> set (Attributes src)"
    using that
    by (simp add: Get_attr_MergeResource_override Get_attr_rev_distinct Get_attr_Some_distinct)
  moreover have "MergeResource \<lparr>Attributes = [(''a'', AttributeValueINT 1)]\<rparr>
       \<lparr>Attributes = [(''a'', AttributeValueINT 2), (''b'', AttributeValueINT 2)]\<rparr> True =
     \<lparr>Attributes = [(''a'', AttributeValueINT 2), (''b'', AttributeValueINT 2)]\<rparr>"
    by (simp add: MergeResource_def IsEmptyResource_def Len_def Upsert_def)
  ultimately show ?thesis by blast
qed

theorem override_merge_witness:
  "distinct (map fst (Attributes \<lparr>Attributes = [(''a'', AttributeValueINT 2), (''b'', AttributeValueINT 2)]\<rparr>))
   \<and> (''a'', AttributeValueINT 2) \<in>
        set (Attributes \<lparr>Attributes = [(''a'', AttributeValueINT 2), (''b'', AttributeValueINT 2)]\<rparr>)
   \<and> Get_attr (Attributes (MergeResource \<lparr>Attributes = [(''a'', AttributeValueINT 1)]\<rparr>
        \<lparr>Attributes = [(''a'', AttributeValueINT 2), (''b'', AttributeValueINT 2)]\<rparr> True)) ''a'' =
      Some (AttributeValueINT 2)"
  using override_merge[of "\<lparr>Attributes = [(''a'', AttributeValueINT 2), (''b'', AttributeValueINT 2)]\<rparr>"
      "''a''" "AttributeValueINT 2" "\<lparr>Attributes = [(''a'', AttributeValueINT 1)]\<rparr>"]
  by simp

text \<open>
  C6. For every target and either value of the flag, \<^verbatim>\<open>MergeResource\<close> with a source of
  zero attributes leaves the target as it is; \<^verbatim>\<open>IsEmptyResource\<close> is true exactly when
  the resource has zero attributes.
\<close>

theorem empty_source_noop:
  "MergeResource tgt (src\<lparr>Attributes := []\<rparr>) overrideTo = tgt
   \<and> IsEmptyResource res = (length (Attributes res) = 0)"
  by (simp add: MergeResource_def IsEmptyResource_def Len_def)

text \<open>
  C7. \<^verbatim>\<open>AttributesToMap\<close> gives a plain map with an entry for every attribute key and
  no other, the entry of a key being the unwrapped value of the attribute. Unwrapping
  keeps a bool, an int, a double and a string as they are, turns an array into the list
  of its unwrapped elements and a nested map into its flattened plain map, and turns a
  value of no recognised type into nil.
\<close>

theorem flatten_shape:
  "(distinct (map fst am) \<longrightarrow> (k, v) \<in> set am \<longrightarrow>
      AttributesToMap am k = Some (UnwrapAttribute v))
   \<and> dom (AttributesToMap am) = fst ` set am
   \<and> UnwrapAttribute (AttributeValueBOOL b) = Bool_val b
   \<and> UnwrapAttribute (AttributeValueINT i) = Int64_val i
   \<and> UnwrapAttribute (AttributeValueDOUBLE d) = Float64_val d
   \<and> UnwrapAttribute (AttributeValueSTRING s) = String_val s
   \<and> UnwrapAttribute (AttributeValueARRAY inArr) = Slice_val (map UnwrapAttribute inArr)
   \<and> getSerializableArray inArr = map UnwrapAttribute inArr
   \<and> UnwrapAttribute (AttributeValueMAP m) = Map_val (AttributesToMap m)
   \<and> UnwrapAttribute AttributeValueNULL = Nil_val"
proof -
  have "AttributesToMap am k = Some (UnwrapAttribute v)"
    if "distinct (map fst am)" and "(k, v) \<in> set am"
    using that by (simp add: AttributesToMap_lookup Get_attr_rev_distinct Get_attr_Some_distinct)
  moreover have "UnwrapAttribute (AttributeValueARRAY inArr) = Slice_val (map UnwrapAttribute inArr)"
    and "getSerializableArray inArr = map UnwrapAttribute inArr"
    and "UnwrapAttribute (AttributeValueMAP m) = Map_val (AttributesToMap m)"
    by (simp_all add: getSerializableArray_loop_map AttributesToMap_def getSerializableArray_def)
  ultimately show ?thesis
    by (simp add: dom_AttributesToMap)
qed

theorem flatten_shape_witness:
  "distinct (map fst sampleAttributes)
   \<and> (''ports'', AttributeValueARRAY [AttributeValueINT 80, AttributeValueSTRING ''http'']) \<in> set sampleAttributes
   \<and> AttributesToMap sampleAttributes ''ports'' = Some (Slice_val [Int64_val 80, String_val ''http''])"
  using flatten_shape[of sampleAttributes "''ports''"
       "AttributeValueARRAY [AttributeValueINT 80, AttributeValueSTRING ''http'']"
       True 0 0 "''''" "[AttributeValueINT 80, AttributeValueSTRING ''http'']" "[]"]
  by (simp add: sampleAttributes_def)

text \<open>
  C8, as amended. The first \<^verbatim>\<open>Get\<close> hands every detector it calls the context that
  \<^verbatim>\<open>WithTimeout\<close> derives from the caller's context and the provider's timeout: detectors
  that block under every other context give the same result and the same world. \<^verbatim>\<open>Get\<close>
  waits for each call. When the detectors before some detector D succeed and D returns an
  error under that context, as a detector that watches its context does once the deadline
  has passed, \<^verbatim>\<open>Get\<close> returns that error as the cached detection error, with no
  resource, and runs no later detector. When D does not return under that context,
  \<^verbatim>\<open>Get\<close> does not return either, whatever the timeout: the timeout bounds the context
  and \<^verbatim>\<open>Get\<close> itself does not enforce it.
\<close>

theorem timeout_bounds_context:
  "map_option (\<lambda>(r, p, w'). (r, w'))
     (Get_b ctx (NewResourceProvider_b lg t (map (only_under (WithTimeout ctx t)) ds)) w) =
   map_option (\<lambda>(r, p, w'). (r, w')) (Get_b ctx (NewResourceProvider_b lg t ds) w)
   \<and> (detectResource_loop_b (WithTimeout ctx t) pre NewResource
         (Info lg ''began detecting resource information'' [] w) = Some (Inr res, w1) \<longrightarrow>
       Detect_b D (WithTimeout ctx t) w1 = Some (Inl e, w2) \<longrightarrow>
       Get_b ctx (NewResourceProvider_b lg t (pre @ D # rest)) w =
         Some (Some (None, Some e),
               \<lparr>logger_b = lg, timeout_b = t, detectors_b = pre @ D # rest,
                detectedResource_b = Some \<lparr>resource = None, err = Some e\<rparr>, once_b = True\<rparr>,
               w2))
   \<and> (detectResource_loop_b (WithTimeout ctx' t') pre' NewResource
         (Info lg' ''began detecting resource information'' [] w') = Some (Inr res', w1') \<longrightarrow>
       Detect_b D' (WithTimeout ctx' t') w1' = None \<longrightarrow>
       Get_b ctx' (NewResourceProvider_b lg' t' (pre' @ D' # rest')) w' = None)"
proof -
  have 1: "map_option (\<lambda>(r, p, w'). (r, w'))
     (Get_b ctx (NewResourceProvider_b lg t (map (only_under (WithTimeout ctx t)) ds)) w) =
   map_option (\<lambda>(r, p, w'). (r, w')) (Get_b ctx (NewResourceProvider_b lg t ds) w)"
    by (simp add: Get_b_fresh detectResource_loop_b_only_under
          split: option.splits prod.splits sum.splits)
  have 2: "Get_b ctx (NewResourceProvider_b lg t (pre @ D # rest)) w =
         Some (Some (None, Some e),
               \<lparr>logger_b = lg, timeout_b = t, detectors_b = pre @ D # rest,
                detectedResource_b = Some \<lparr>resource = None, err = Some e\<rparr>, once_b = True\<rparr>,
               w2)"
    if "detectResource_loop_b (WithTimeout ctx t) pre NewResource
         (Info lg ''began detecting resource information'' [] w) = Some (Inr res, w1)"
      and "Detect_b D (WithTimeout ctx t) w1 = Some (Inl e, w2)"
    using that by (simp add: Get_b_fresh detectResource_loop_b_append)
  have 3: "Get_b ctx' (NewResourceProvider_b lg' t' (pre' @ D' # rest')) w' = None"
    if "detectResource_loop_b (WithTimeout ctx' t') pre' NewResource
         (Info lg' ''began detecting resource information'' [] w') = Some (Inr res', w1')"
      and "Detect_b D' (WithTimeout ctx' t') w1' = None"
    using that by (simp add: Get_b_fresh detectResource_loop_b_append)
  from 1 2 3 show ?thesis by blast
qed

theorem timeout_bounds_context_witness:
  "detectResource_loop_b (WithTimeout (Context 0) 5) [returning detectorA] NewResource
     (Info 0 ''began detecting resource information'' [] world0) =
     Some (Inr \<lparr>Attributes = [(''a'', AttributeValueINT 1)]\<rparr>,
           (Info 0 ''began detecting resource information'' [] world0)
             \<lparr>calls := [''Detect A'']\<rparr>)
   \<and> Detect_b deadlineAware (WithTimeout (Context 0) 5)
       ((Info 0 ''began detecting resource information'' [] world0)
          \<lparr>calls := [''Detect A'']\<rparr>) =
     Some (Inl (Err ''context deadline exceeded''),
           (Info 0 ''began detecting resource information'' [] world0)
             \<lparr>calls := [''Detect A'', ''Detect deadlineAware'']\<rparr>)
   \<and> Get_b (Context 0)
       (NewResourceProvider_b 0 5 ([returning detectorA] @ deadlineAware # [returning detectorC]))
       world0 =
     Some (Some (None, Some (Err ''context deadline exceeded'')),
           \<lparr>logger_b = 0, timeout_b = 5,
            detectors_b = [returning detectorA] @ deadlineAware # [returning detectorC],
            detectedResource_b =
              Some \<lparr>resource = None, err = Some (Err ''context deadline exceeded'')\<rparr>,
            once_b = True\<rparr>,
           (Info 0 ''began detecting resource information'' [] world0)
             \<lparr>calls := [''Detect A'', ''Detect deadlineAware'']\<rparr>)
   \<and> detectResource_loop_b (WithTimeout (Context 1) 9) [] NewResource
       (Info 0 ''began detecting resource information'' [] world0) =
     Some (Inr NewResource, Info 0 ''began detecting resource information'' [] world0)
   \<and> Detect_b neverReturns (WithTimeout (Context 1) 9)
       (Info 0 ''began detecting resource information'' [] world0) = None
   \<and> Get_b (Context 1) (NewResourceProvider_b 0 9 ([] @ neverReturns # [deadlineAware])) world0 =
     None"
proof -
  have a: "detectResource_loop_b (WithTimeout (Context 0) 5) [returning detectorA] NewResource
     (Info 0 ''began detecting resource information'' [] world0) =
     Some (Inr \<lparr>Attributes = [(''a'', AttributeValueINT 1)]\<rparr>,
           (Info 0 ''began detecting resource information'' [] world0)
             \<lparr>calls := [''Detect A'']\<rparr>)"
    by (simp add: returning_def detectorA_def Detect_mockDetector Info_def world0_def
          MergeResource_def IsEmptyResource_def Len_def NewResource_def Insert_def)
  have b: "Detect_b deadlineAware (WithTimeout (Context 0) 5)
       ((Info 0 ''began detecting resource information'' [] world0)
          \<lparr>calls := [''Detect A'']\<rparr>) =
     Some (Inl (Err ''context deadline exceeded''),
           (Info 0 ''began detecting resource information'' [] world0)
             \<lparr>calls := [''Detect A'', ''Detect deadlineAware'']\<rparr>)"
    by (simp add: deadlineAware_def Info_def world0_def)
  have c: "detectResource_loop_b (WithTimeout (Context 1) 9) [] NewResource
       (Info 0 ''began detecting resource information'' [] world0) =
     Some (Inr NewResource, Info 0 ''began detecting resource information'' [] world0)"
    by simp
  have d: "Detect_b neverReturns (WithTimeout (Context 1) 9)
       (Info 0 ''began detecting resource information'' [] world0) = None"
    by (simp add: neverReturns_def)
  note T = timeout_bounds_context[where ctx = "Context 0" and lg = 0 and t = 5
      and w = world0 and pre = "[returning detectorA]" and D = deadlineAware
      and rest = "[returning detectorC]" and ds = "[]"
      and ctx' = "Context 1" and lg' = 0 and t' = 9 and w' = world0 and pre' = "[]"
      and D' = neverReturns and rest' = "[deadlineAware]"]
  from T a b have r1: "Get_b (Context 0)
       (NewResourceProvider_b 0 5 ([returning detectorA] @ deadlineAware # [returning detectorC]))
       world0 =
     Some (Some (None, Some (Err ''context deadline exceeded'')),
           \<lparr>logger_b = 0, timeout_b = 5,
            detectors_b = [returning detectorA] @ deadlineAware # [returning detectorC],
            detectedResource_b =
              Some \<lparr>resource = None, err = Some (Err ''context deadline exceeded'')\<rparr>,
            once_b = True\<rparr>,
           (Info 0 ''began detecting resource information'' [] world0)
             \<lparr>calls := [''Detect A'', ''Detect deadlineAware'']\<rparr>)"
    by blast
  from T c d have r2:
    "Get_b (Context 1) (NewResourceProvider_b 0 9 ([] @ neverReturns # [deadlineAware])) world0 =
     None"
    by blast
  from a b c d r1 r2 show ?thesis by blast
qed

text \<open>
  C8, as first stated, says that \<^verbatim>\<open>Get\<close> fails once the timeout has passed when a
  detector does not return. With a detector that ignores its context and never returns,
  \<^verbatim>\<open>Get\<close> on a provider with a timeout does not return.
\<close>

theorem timeout_not_enforced_counterexample:
  "Get_b (Context 0) (NewResourceProvider_b 0 5 [neverReturns]) world0 = None"
  by (simp add: Get_b_fresh neverReturns_def)

text \<open>
  C9. With no detectors, the first \<^verbatim>\<open>Get\<close> returns a resource with zero attributes and
  no error, and caches it: every later \<^verbatim>\<open>Get\<close> returns the same and changes nothing.
\<close>

theorem empty_detector_list:
  "Get ctx (NewResourceProvider lg t []) w =
     (Some (Some NewResource, None),
      \<lparr>logger = lg, timeout = t, detectors = [],
       detectedResource = Some \<lparr>resource = Some NewResource, err = None\<rparr>, once = True\<rparr>,
      Info lg ''detected resource information'' [(''resource'', Map_val Map.empty)]
        (Info lg ''began detecting resource information'' [] w))
   \<and> Attributes NewResource = []
   \<and> Get_repeatedly ctxs
       \<lparr>logger = lg, timeout = t, detectors = [],
        detectedResource = Some \<lparr>resource = Some NewResource, err = None\<rparr>, once = True\<rparr> w' =
     (replicate (length ctxs) (Some (Some NewResource, None)),
      \<lparr>logger = lg, timeout = t, detectors = [],
       detectedResource = Some \<lparr>resource = Some NewResource, err = None\<rparr>, once = True\<rparr>, w')"
  by (simp add: Get_fresh Get_repeatedly_done NewResource_def AttributesToMap_def)

text \<open>
  C10. For either value of the flag, \<^verbatim>\<open>MergeResource\<close> keeps the target's value of every
  key that the source lacks, keeps every entry of the target under such a key, and removes
  no key of the target.
\<close>

theorem merge_frame:
  "(k \<notin> fst ` set (Attributes src) \<longrightarrow>
      Get_attr (Attributes (MergeResource tgt src overrideTo)) k = Get_attr (Attributes tgt) k
      \<and> ((k, v) \<in> set (Attributes tgt) \<longrightarrow>
           (k, v) \<in> set (Attributes (MergeResource tgt src overrideTo))))
   \<and> fst ` set (Attributes tgt) \<subseteq> fst ` set (Attributes (MergeResource tgt src overrideTo))"
proof -
  have look: "Get_attr (Attributes (MergeResource tgt src overrideTo)) k = Get_attr (Attributes tgt) k"
    if "k \<notin> fst ` set (Attributes src)"
  proof -
    from that have "Get_attr (Attributes src) k = None" "Get_attr (rev (Attributes src)) k = None"
      by (simp_all add: Get_attr_None_iff)
    then show ?thesis
      by (cases overrideTo)
         (simp_all add: Get_attr_MergeResource_insert Get_attr_MergeResource_override
            split: option.splits)
  qed
  have pair: "(k, v) \<in> set (Attributes (MergeResource tgt src overrideTo))"
    if "k \<notin> fst ` set (Attributes src)" and "(k, v) \<in> set (Attributes tgt)"
    using in_set_Range_merge[OF that(2) that(1), where b = overrideTo] that(2)
    by (simp add: MergeResource_def)
  have keys: "fst ` set (Attributes tgt) \<subseteq> fst ` set (Attributes (MergeResource tgt src overrideTo))"
    using keys_Range_merge[where tgt = "Attributes tgt" and b = overrideTo and src = "Attributes src"]
    by (simp add: MergeResource_def)
  from look pair keys show ?thesis by blast
qed

theorem merge_frame_witness:
  "''c'' \<notin> fst ` set (Attributes \<lparr>Attributes = [(''a'', AttributeValueINT 2), (''b'', AttributeValueINT 2)]\<rparr>)
   \<and> (''c'', AttributeValueINT 3) \<in>
        set (Attributes \<lparr>Attributes = [(''a'', AttributeValueINT 1), (''c'', AttributeValueINT 3)]\<rparr>)
   \<and> Get_attr (Attributes (MergeResource
         \<lparr>Attributes = [(''a'', AttributeValueINT 1), (''c'', AttributeValueINT 3)]\<rparr>
         \<lparr>Attributes = [(''a'', AttributeValueINT 2), (''b'', AttributeValueINT 2)]\<rparr> True)) ''c'' =
       Some (AttributeValueINT 3)
   \<and> (''c'', AttributeValueINT 3) \<in> set (Attributes (MergeResource
         \<lparr>Attributes = [(''a'', AttributeValueINT 1), (''c'', AttributeValueINT 3)]\<rparr>
         \<lparr>Attributes = [(''a'', AttributeValueINT 2), (''b'', AttributeValueINT 2)]\<rparr> True))"
  using merge_frame[of "''c''"
      "\<lparr>Attributes = [(''a'', AttributeValueINT 2), (''b'', AttributeValueINT 2)]\<rparr>"
      "\<lparr>Attributes = [(''a'', AttributeValueINT 1), (''c'', AttributeValueINT 3)]\<rparr>" True
      "AttributeValueINT 3"]
  by simp

end
